theory Spec2Isabelle
  imports Main
begin

section \<open>The decision pipeline of \<^verbatim>\<open>AI_logic/respond.py\<close>\<close>

text \<open>
  The module chains three model-backed calls (Analyzer, Commander, Writer) around a
  record store, a rule store and two notification channels. Everything outside the
  module (the language model, the stores, the notification services, \<^verbatim>\<open>json.loads\<close>)
  is a parameter of the model, collected in the record \<open>env\<close>; every call that leaves
  the module is written to a trace, so that "is invoked" and "is never invoked" are
  statements about that trace.
\<close>

subsection \<open>Values\<close>

type_synonym args = "(string \<times> string) list"
  \<comment> \<open>the dict literal handed to \<^verbatim>\<open>chain.invoke\<close>, keys in the order written\<close>

datatype json =
    JNull
  | JBool bool
  | JNum int
  | JStr string
  | JArr "json list"
  | JObj "(string \<times> json) list"

record analyzer_output =
  summary :: string
  future_step :: string
  contact :: string

record commander_output =
  reasoning :: string
  tags :: "string list"

datatype error =
    ChainError string
  | JSONDecodeError
  | RetryError error
  | NameError string
  | KeyError string
  | TypeError
  | RequestException string
  | PushError string

subsection \<open>Chains\<close>

datatype schema = AnalyzerOutput | CommanderStep1Output | CommanderStep2Output

datatype chat_model = Analyzer | Commander | Writer

datatype prompt =
  analyzer_prompt | commander_step1_prompt | commander_step2_prompt | writer_prompt

datatype chain =
    create_structured_output_runnable schema chat_model prompt
  | StrOutputPipe prompt chat_model

definition analyzer_chain :: chain where
  "analyzer_chain = create_structured_output_runnable AnalyzerOutput Analyzer analyzer_prompt"

definition writer_chain :: chain where
  "writer_chain = StrOutputPipe writer_prompt Writer"

definition commander_chain :: "string \<Rightarrow> chain" where
  "commander_chain fs =
     (if fs = ''step1''
      then create_structured_output_runnable CommanderStep1Output Commander commander_step1_prompt
      else create_structured_output_runnable CommanderStep2Output Commander commander_step2_prompt)"

text \<open>The tag vocabulary each Commander schema names in its \<^verbatim>\<open>tags\<close> field description.\<close>

fun tag_vocabulary :: "schema \<Rightarrow> string list" where
  "tag_vocabulary CommanderStep1Output = [''Bond'', ''Attractive guy image'', ''Storytelling'']"
| "tag_vocabulary CommanderStep2Output =
     [''Suggesting meeting'', ''Comfort'', ''Providing meeting details'', ''Ask for contact'']"
| "tag_vocabulary AnalyzerOutput = []"

fun chain_schema :: "chain \<Rightarrow> schema option" where
  "chain_schema (create_structured_output_runnable s m p) = Some s"
| "chain_schema (StrOutputPipe p m) = None"

subsection \<open>Strings\<close>

text \<open>Python's \<^verbatim>\<open>sep.join(xs)\<close>.\<close>

fun join :: "string \<Rightarrow> string list \<Rightarrow> string" where
  "join sep [] = []"
| "join sep [x] = x"
| "join sep (x # y # ys) = x @ sep @ join sep (y # ys)"

definition rules_separator :: string where
  "rules_separator = [CHR 0x0A] @ ''###'' @ [CHR 0x0A] @ ''- ''"

text \<open>
  Truthiness of a string. A value read with \<^verbatim>\<open>os.getenv\<close> is \<^verbatim>\<open>None\<close> when the variable is unset,
  modelled as an optional string; it is true when it is set and non-empty.
\<close>

definition truthy :: "string \<Rightarrow> bool" where
  "truthy s = (s \<noteq> [])"

text \<open>Subscripting the parsed Writer output, \<^verbatim>\<open>writer_output['message']\<close>.\<close>

fun getitem :: "json \<Rightarrow> string \<Rightarrow> error + json" where
  "getitem (JObj kvs) k = (case map_of kvs k of None \<Rightarrow> Inl (KeyError k) | Some v \<Rightarrow> Inr v)"
| "getitem j k = Inl TypeError"

subsection \<open>The world outside the module\<close>

datatype event =
    EvGetRecord string
  | EvInvoke chain args
  | EvPrintAnalyzer analyzer_output
  | EvWebhook string args
  | EvPushNote string string
  | EvUpsert string "string option" bool
  | EvQueryRule string
  | EvPrintOutput "string option" json
  | EvPrintError error
  | EvSleep nat

text \<open>
  \<open>store\<close> is the record store behind \<^verbatim>\<open>get_record\<close>/\<^verbatim>\<open>upsert_record\<close>, \<open>model_state\<close> whatever
  the language-model service remembers between calls (so that a call can fail once and
  succeed later), \<open>trace\<close> the calls and prints made so far, oldest first.
\<close>

record ('s, 'o) world =
  store :: 's
  model_state :: 'o
  trace :: "event list"

text \<open>
  The environment: the four values read from the process environment at import, and the
  collaborators the module imports. \<^verbatim>\<open>AI_logic/airtable.py\<close> and
  \<^verbatim>\<open>AI_logic/rule_base/rules_db_conn.py\<close> are not part of the sources at hand, so
  \<open>get_record\<close>, \<open>upsert_record\<close> and \<open>query_rule\<close> are arbitrary functions here, taken to
  return normally. The calls into third-party libraries made by the module itself may
  raise: a model call, \<^verbatim>\<open>requests.get\<close> (line 123) and \<^verbatim>\<open>push_note\<close> (line 124). The last two
  are made at most once in a cycle, so their outcome is a function of their arguments:
  \<open>None\<close> when the call returns, \<open>Some e\<close> when it raises \<open>e\<close>.
\<close>

record ('s, 'o) env =
  language :: string
  city :: string
  notifications_hook :: "string option"
  pushbullet_key :: "string option"
  get_record :: "string \<Rightarrow> 's \<Rightarrow> string"
  upsert_record :: "string \<Rightarrow> string option \<Rightarrow> bool \<Rightarrow> 's \<Rightarrow> 's"
  query_rule :: "string \<Rightarrow> string"
  requests_get :: "string \<Rightarrow> args \<Rightarrow> error option"
  push_note :: "string \<Rightarrow> string \<Rightarrow> string \<Rightarrow> error option"
  invoke_analyzer :: "args \<Rightarrow> 'o \<Rightarrow> (error + analyzer_output) \<times> 'o"
  invoke_commander :: "chain \<Rightarrow> args \<Rightarrow> 'o \<Rightarrow> (error + commander_output) \<times> 'o"
  invoke_str :: "chain \<Rightarrow> args \<Rightarrow> 'o \<Rightarrow> (error + string) \<times> 'o"
  json_loads :: "string \<Rightarrow> json option"
  py_str :: "json \<Rightarrow> string"

definition emit :: "event \<Rightarrow> ('s, 'o) world \<Rightarrow> ('s, 'o) world" where
  "emit e w = w\<lparr>trace := trace w @ [e]\<rparr>"

text \<open>
  Lines 39-41: the name \<^verbatim>\<open>pushbullet\<close> is bound only when the key is set and non-empty
  (the import binds the class \<^verbatim>\<open>Pushbullet\<close>, not the module).
\<close>

definition pushbullet :: "('s, 'o) env \<Rightarrow> string option" where
  "pushbullet env =
     (case pushbullet_key env of
        None \<Rightarrow> None
      | Some k \<Rightarrow> if truthy k then Some k else None)"

definition call_get_record ::
  "('s, 'o) env \<Rightarrow> string \<Rightarrow> ('s, 'o) world \<Rightarrow> string \<times> ('s, 'o) world" where
  "call_get_record env name_age w =
     (get_record env name_age (store w), emit (EvGetRecord name_age) w)"

definition call_upsert_record ::
  "('s, 'o) env \<Rightarrow> string \<Rightarrow> string option \<Rightarrow> bool \<Rightarrow> ('s, 'o) world \<Rightarrow> ('s, 'o) world" where
  "call_upsert_record env name_age s not_to_rise w =
     emit (EvUpsert name_age s not_to_rise)
       (w\<lparr>store := upsert_record env name_age s not_to_rise (store w)\<rparr>)"

definition call_requests_get ::
  "('s, 'o) env \<Rightarrow> string \<Rightarrow> args \<Rightarrow> ('s, 'o) world
     \<Rightarrow> error option \<times> ('s, 'o) world" where
  "call_requests_get env url params w =
     (requests_get env url params, emit (EvWebhook url params) w)"

definition call_push_note ::
  "('s, 'o) env \<Rightarrow> string \<Rightarrow> string \<Rightarrow> string \<Rightarrow> ('s, 'o) world
     \<Rightarrow> error option \<times> ('s, 'o) world" where
  "call_push_note env client title body w =
     (push_note env client title body, emit (EvPushNote title body) w)"

definition call_analyzer ::
  "('s, 'o) env \<Rightarrow> args \<Rightarrow> ('s, 'o) world \<Rightarrow> (error + analyzer_output) \<times> ('s, 'o) world" where
  "call_analyzer env a w =
     (case invoke_analyzer env a (model_state w) of
        (r, st) \<Rightarrow> (r, emit (EvInvoke analyzer_chain a) (w\<lparr>model_state := st\<rparr>)))"

definition call_commander ::
  "('s, 'o) env \<Rightarrow> chain \<Rightarrow> args \<Rightarrow> ('s, 'o) world
     \<Rightarrow> (error + commander_output) \<times> ('s, 'o) world" where
  "call_commander env c a w =
     (case invoke_commander env c a (model_state w) of
        (r, st) \<Rightarrow> (r, emit (EvInvoke c a) (w\<lparr>model_state := st\<rparr>)))"

definition call_str ::
  "('s, 'o) env \<Rightarrow> chain \<Rightarrow> args \<Rightarrow> ('s, 'o) world \<Rightarrow> (error + string) \<times> ('s, 'o) world" where
  "call_str env c a w =
     (case invoke_str env c a (model_state w) of
        (r, st) \<Rightarrow> (r, emit (EvInvoke c a) (w\<lparr>model_state := st\<rparr>)))"

text \<open>The list comprehension of line 131, one lookup per tag, left to right.\<close>

fun query_rules ::
  "('s, 'o) env \<Rightarrow> string list \<Rightarrow> ('s, 'o) world \<Rightarrow> string list \<times> ('s, 'o) world" where
  "query_rules env [] w = ([], w)"
| "query_rules env (tag # ts) w =
     (case query_rules env ts (emit (EvQueryRule tag) w) of
        (rs, w') \<Rightarrow> (query_rule env tag # rs, w'))"

subsection \<open>\<^verbatim>\<open>invoke_chain\<close> and its retry decorator\<close>

text \<open>The body of \<^verbatim>\<open>invoke_chain\<close> (lines 102-110): one attempt.\<close>

definition invoke_chain_body ::
  "('s, 'o) env \<Rightarrow> chain \<Rightarrow> args \<Rightarrow> string option \<Rightarrow> ('s, 'o) world
     \<Rightarrow> (error + json) \<times> ('s, 'o) world" where
  "invoke_chain_body env c a module_name w =
     (case call_str env c a w of
        (Inl e, w1) \<Rightarrow> (Inl e, emit (EvPrintError e) w1)
      | (Inr output, w1) \<Rightarrow>
          (case json_loads env output of
             None \<Rightarrow> (Inl JSONDecodeError, emit (EvPrintError JSONDecodeError) w1)
           | Some j \<Rightarrow> (Inr j, emit (EvPrintOutput module_name j) w1)))"

text \<open>
  \<^verbatim>\<open>@retry(stop=stop_after_attempt(n), wait=wait_fixed(d))\<close>: run the attempt; on an exception
  stop when the attempt number has reached \<open>n\<close>, raising \<^verbatim>\<open>RetryError\<close> around the last
  exception, and otherwise sleep \<open>d\<close> and run the next attempt.
\<close>

function retry ::
  "nat \<Rightarrow> nat \<Rightarrow> (('s, 'o) world \<Rightarrow> (error + 'a) \<times> ('s, 'o) world) \<Rightarrow> nat \<Rightarrow> ('s, 'o) world
     \<Rightarrow> (error + 'a) \<times> ('s, 'o) world" where
  "retry stop_after_attempt wait_fixed f attempt_number w =
     (case f w of
        (Inr v, w1) \<Rightarrow> (Inr v, w1)
      | (Inl e, w1) \<Rightarrow>
          if attempt_number \<ge> stop_after_attempt then (Inl (RetryError e), w1)
          else retry stop_after_attempt wait_fixed f (attempt_number + 1)
                 (emit (EvSleep wait_fixed) w1))"
  by pat_completeness auto
termination
  by (relation "measure (\<lambda>(n, d, f, k, w). n - k)") auto

declare retry.simps [simp del]

definition invoke_chain ::
  "('s, 'o) env \<Rightarrow> chain \<Rightarrow> args \<Rightarrow> string option \<Rightarrow> ('s, 'o) world
     \<Rightarrow> (error + json) \<times> ('s, 'o) world" where
  "invoke_chain env c a module_name w = retry 3 90 (invoke_chain_body env c a module_name) 1 w"

subsection \<open>\<^verbatim>\<open>respond_to_girl\<close>\<close>

text \<open>
  Lines 122-126, the branch taken when \<^verbatim>\<open>contact\<close> is non-empty. Nothing here is caught: an
  exception of the webhook request or of the push leaves the function before line 125.
\<close>

definition contact_exit ::
  "('s, 'o) env \<Rightarrow> string \<Rightarrow> string \<Rightarrow> ('s, 'o) world
     \<Rightarrow> (error + json option) \<times> ('s, 'o) world" where
  "contact_exit env name_age cont w =
     (case (case notifications_hook env of
              None \<Rightarrow> (None, w)
            | Some hook \<Rightarrow>
                if truthy hook
                then call_requests_get env hook
                       [(''name_age'', name_age), (''contact'', cont)] w
                else (None, w)) of
        (Some e, w1) \<Rightarrow> (Inl e, w1)
      | (None, w1) \<Rightarrow>
          (case pushbullet env of
             None \<Rightarrow> (Inl (NameError ''pushbullet''), w1)
           | Some pb \<Rightarrow>
               (case call_push_note env pb (''I planned date with '' @ name_age) cont w1 of
                  (Some e, w2) \<Rightarrow> (Inl e, w2)
                | (None, w2) \<Rightarrow>
                    (Inr None, call_upsert_record env name_age None True w2))))"

text \<open>Lines 141-144: the summary to persist, refreshed by a second Analyzer call for two tags.\<close>

definition refresh_summary ::
  "('s, 'o) env \<Rightarrow> analyzer_output \<Rightarrow> string list \<Rightarrow> json \<Rightarrow> ('s, 'o) world
     \<Rightarrow> (error + string) \<times> ('s, 'o) world" where
  "refresh_summary env analyzer_out tgs msgs w =
     (if ''Attractive guy image'' \<in> set tgs \<or> ''Storytelling'' \<in> set tgs
      then (case call_analyzer env
                   [(''summary'', summary analyzer_out),
                    (''messages'', ''Conversator: '' @ py_str env msgs)] w of
              (Inl e, w1) \<Rightarrow> (Inl e, w1)
            | (Inr analyzer2_out, w1) \<Rightarrow>
                (Inr (summary analyzer2_out), emit (EvPrintAnalyzer analyzer_out) w1))
      else (Inr (summary analyzer_out), w))"

text \<open>Lines 139-147: what follows the Writer call.\<close>

definition after_writer ::
  "('s, 'o) env \<Rightarrow> string \<Rightarrow> analyzer_output \<Rightarrow> string list
     \<Rightarrow> (error + json) \<times> ('s, 'o) world \<Rightarrow> (error + json option) \<times> ('s, 'o) world" where
  "after_writer env name_age analyzer_out tgs r =
     (case r of
        (Inl e, w1) \<Rightarrow> (Inl e, w1)
      | (Inr writer_output, w1) \<Rightarrow>
          (case getitem writer_output ''message'' of
             Inl e \<Rightarrow> (Inl e, w1)
           | Inr msgs \<Rightarrow>
               (case refresh_summary env analyzer_out tgs msgs w1 of
                  (Inl e, w2) \<Rightarrow> (Inl e, w2)
                | (Inr s, w2) \<Rightarrow>
                    (Inr (Some msgs), call_upsert_record env name_age (Some s) False w2))))"

definition writer_args :: "('s, 'o) env \<Rightarrow> string list \<Rightarrow> string \<Rightarrow> args" where
  "writer_args env rule_texts messages =
     [(''rules'', join rules_separator rule_texts),
      (''messages'', messages),
      (''language'', language env),
      (''city'', city env)]"

text \<open>Lines 130-147: from the Commander's tags to the return.\<close>

definition write_and_persist ::
  "('s, 'o) env \<Rightarrow> string \<Rightarrow> string \<Rightarrow> analyzer_output \<Rightarrow> string list \<Rightarrow> ('s, 'o) world
     \<Rightarrow> (error + json option) \<times> ('s, 'o) world" where
  "write_and_persist env name_age messages analyzer_out tgs w =
     (case query_rules env tgs w of
        (rule_texts, w1) \<Rightarrow>
          after_writer env name_age analyzer_out tgs
            (invoke_chain env writer_chain (writer_args env rule_texts messages)
               (Some ''Writer'') w1))"

text \<open>
  The whole function. The result is \<open>Inl e\<close> when an exception leaves the function,
  \<open>Inr None\<close> for the bare \<^verbatim>\<open>return\<close> of line 126 and \<open>Inr (Some m)\<close> for line 147.
\<close>

definition respond_to_girl ::
  "('s, 'o) env \<Rightarrow> string \<Rightarrow> string \<Rightarrow> ('s, 'o) world
     \<Rightarrow> (error + json option) \<times> ('s, 'o) world" where
  "respond_to_girl env name_age messages w =
     (case call_get_record env name_age w of
        (previous_summary, w1) \<Rightarrow>
          (case call_analyzer env
                  [(''summary'', previous_summary), (''messages'', messages)] w1 of
             (Inl e, w2) \<Rightarrow> (Inl e, w2)
           | (Inr analyzer_out, w2) \<Rightarrow>
               (let w3 = emit (EvPrintAnalyzer analyzer_out) w2 in
                if truthy (contact analyzer_out)
                then contact_exit env name_age (contact analyzer_out) w3
                else
                  (case call_commander env (commander_chain (future_step analyzer_out))
                          [(''summary'', summary analyzer_out), (''messages'', messages)] w3 of
                     (Inl e, w4) \<Rightarrow> (Inl e, w4)
                   | (Inr commander_out, w4) \<Rightarrow>
                       write_and_persist env name_age messages analyzer_out
                         (tags commander_out) w4))))"

subsection \<open>Reading a trace\<close>

fun chain_model :: "chain \<Rightarrow> chat_model" where
  "chain_model (create_structured_output_runnable s m p) = m"
| "chain_model (StrOutputPipe p m) = m"

text \<open>The invocations of chains built on model \<open>m\<close>, in order.\<close>

fun calls_to :: "chat_model \<Rightarrow> event list \<Rightarrow> (chain \<times> args) list" where
  "calls_to m [] = []"
| "calls_to m (EvInvoke c a # es) =
     (if chain_model c = m then (c, a) # calls_to m es else calls_to m es)"
| "calls_to m (e # es) = calls_to m es"

fun upserts :: "event list \<Rightarrow> (string \<times> string option \<times> bool) list" where
  "upserts [] = []"
| "upserts (EvUpsert k s b # es) = (k, s, b) # upserts es"
| "upserts (e # es) = upserts es"

fun push_notes :: "event list \<Rightarrow> (string \<times> string) list" where
  "push_notes [] = []"
| "push_notes (EvPushNote t b # es) = (t, b) # push_notes es"
| "push_notes (e # es) = push_notes es"

fun sleeps :: "event list \<Rightarrow> nat list" where
  "sleeps [] = []"
| "sleeps (EvSleep d # es) = d # sleeps es"
| "sleeps (e # es) = sleeps es"

fun printed_errors :: "event list \<Rightarrow> error list" where
  "printed_errors [] = []"
| "printed_errors (EvPrintError e # es) = e # printed_errors es"
| "printed_errors (e # es) = printed_errors es"

text \<open>
  The two events whose order matters for persistence: the print of a parsed Writer result
  (lines 105-106, reached only when the attempt succeeded) and a store write.
\<close>

datatype milestone = WriterSucceeded | StoreWritten

fun milestones :: "event list \<Rightarrow> milestone list" where
  "milestones [] = []"
| "milestones (EvPrintOutput m j # es) =
     (if m = Some ''Writer'' then WriterSucceeded # milestones es else milestones es)"
| "milestones (EvUpsert k s b # es) = StoreWritten # milestones es"
| "milestones (e # es) = milestones es"

text \<open>What one call added to the trace.\<close>

definition new_events :: "('s, 'o) world \<Rightarrow> ('s, 'o) world \<Rightarrow> event list" where
  "new_events w w' = drop (length (trace w)) (trace w')"

text \<open>
  The trace of one attempt with outcome \<open>r\<close>, and of a run of attempts with a sleep
  between consecutive ones.
\<close>

fun attempt_events :: "chain \<Rightarrow> args \<Rightarrow> string option \<Rightarrow> error + json \<Rightarrow> event list" where
  "attempt_events c a m (Inl e) = [EvInvoke c a, EvPrintError e]"
| "attempt_events c a m (Inr j) = [EvInvoke c a, EvPrintOutput m j]"

fun run_events ::
  "chain \<Rightarrow> args \<Rightarrow> string option \<Rightarrow> nat \<Rightarrow> (error + json) list \<Rightarrow> event list" where
  "run_events c a m d [] = []"
| "run_events c a m d [r] = attempt_events c a m r"
| "run_events c a m d (r # r' # rs) =
     attempt_events c a m r @ [EvSleep d] @ run_events c a m d (r' # rs)"

subsection \<open>A scripted environment\<close>

text \<open>
  A test double for the collaborators: the store is a list of rows, newest first; each
  model answers from a script, one reply per call, and fails once its script is used up;
  the webhook request fails for one unreachable address and the push is always delivered.
\<close>

type_synonym rows = "(string \<times> string option \<times> bool) list"

type_synonym script =
  "(error + analyzer_output) list \<times> (error + commander_output) list \<times> (error + string) list"

fun next_reply :: "(error + 'a) list \<Rightarrow> (error + 'a) \<times> (error + 'a) list" where
  "next_reply [] = (Inl (ChainError ''no reply scripted''), [])"
| "next_reply (r # rs) = (r, rs)"

definition day_reply :: string where
  \<open>day_reply = ''{"reasoning": "Ask.", "message": ["Hey, how was your day?"]}''\<close>

definition day_reply_json :: json where
  "day_reply_json =
     JObj [(''reasoning'', JStr ''Ask.''), (''message'', JArr [JStr ''Hey, how was your day?''])]"

definition scripted_env :: "string option \<Rightarrow> string option \<Rightarrow> (rows, script) env" where
  "scripted_env hook key =
     \<lparr>language = ''English'', city = ''Warsaw'',
      notifications_hook = hook, pushbullet_key = key,
      get_record = (\<lambda>k rs. case map_of rs k of Some (Some s, b) \<Rightarrow> s | _ \<Rightarrow> []),
      upsert_record = (\<lambda>k s b rs. (k, s, b) # rs),
      query_rule = (\<lambda>t. if t = ''Bond'' then ''Ask about her day.'' else ''Rule: '' @ t),
      requests_get = (\<lambda>url params.
         if url = ''https://unreachable.example/date''
         then Some (RequestException ''connection refused'') else None),
      push_note = (\<lambda>client title body. None),
      invoke_analyzer = (\<lambda>a (x, y, z). case next_reply x of (r, x') \<Rightarrow> (r, (x', y, z))),
      invoke_commander = (\<lambda>c a (x, y, z). case next_reply y of (r, y') \<Rightarrow> (r, (x, y', z))),
      invoke_str = (\<lambda>c a (x, y, z). case next_reply z of (r, z') \<Rightarrow> (r, (x, y, z'))),
      json_loads = (\<lambda>s. if s = day_reply then Some day_reply_json else None),
      py_str = (\<lambda>j. ''[...]'')\<rparr>"

definition fresh_world :: "script \<Rightarrow> (rows, script) world" where
  "fresh_world sc = \<lparr>store = [], model_state = sc, trace = []\<rparr>"

section \<open>Properties\<close>

subsection \<open>Traces\<close>

lemma emit_simps [simp]:
  "trace (emit e w) = trace w @ [e]" "store (emit e w) = store w"
  "model_state (emit e w) = model_state w"
  by (simp_all add: emit_def)

lemma calls_to_append [simp]: "calls_to m (xs @ ys) = calls_to m xs @ calls_to m ys"
  by (induction m xs rule: calls_to.induct) simp_all

lemma upserts_append [simp]: "upserts (xs @ ys) = upserts xs @ upserts ys"
  by (induction xs rule: upserts.induct) simp_all

lemma push_notes_append [simp]: "push_notes (xs @ ys) = push_notes xs @ push_notes ys"
  by (induction xs rule: push_notes.induct) simp_all

lemma sleeps_append [simp]: "sleeps (xs @ ys) = sleeps xs @ sleeps ys"
  by (induction xs rule: sleeps.induct) simp_all

lemma printed_errors_append [simp]:
  "printed_errors (xs @ ys) = printed_errors xs @ printed_errors ys"
  by (induction xs rule: printed_errors.induct) simp_all

lemma milestones_append [simp]: "milestones (xs @ ys) = milestones xs @ milestones ys"
  by (induction xs rule: milestones.induct) simp_all

lemma new_events_append [simp]: "trace w' = trace w @ evs \<Longrightarrow> new_events w w' = evs"
  by (simp add: new_events_def)

lemma upserts_query [simp]: "upserts (map EvQueryRule ts) = []"
  by (induction ts) simp_all

lemma calls_to_query [simp]: "calls_to m (map EvQueryRule ts) = []"
  by (induction ts) simp_all

lemma milestones_query [simp]: "milestones (map EvQueryRule ts) = []"
  by (induction ts) simp_all

lemma attempt_events_upserts [simp]: "upserts (attempt_events c a m r) = []"
  by (cases r) simp_all

lemma run_events_upserts [simp]: "upserts (run_events c a m d rs) = []"
  by (induction c a m d rs rule: run_events.induct) simp_all

lemma attempt_events_calls [simp]:
  "calls_to m' (attempt_events c a m r) = (if chain_model c = m' then [(c, a)] else [])"
  by (cases r) simp_all

lemma run_events_calls [simp]:
  "calls_to m' (run_events c a m d rs) =
     (if chain_model c = m' then replicate (length rs) (c, a) else [])"
  by (induction c a m d rs rule: run_events.induct) simp_all

lemma attempt_events_sleeps [simp]: "sleeps (attempt_events c a m r) = []"
  by (cases r) simp_all

lemma run_events_sleeps [simp]:
  "sleeps (run_events c a m d rs) = replicate (length rs - 1) d"
  by (induction c a m d rs rule: run_events.induct) simp_all

lemma attempt_events_errors [simp]:
  "printed_errors (attempt_events c a m r) = (case r of Inl e \<Rightarrow> [e] | Inr j \<Rightarrow> [])"
  by (cases r) simp_all


lemma attempt_events_milestones [simp]:
  "milestones (attempt_events c a m r) =
     (if \<not> isl r \<and> m = Some ''Writer'' then [WriterSucceeded] else [])"
  by (cases r) simp_all

lemma run_events_milestones:
  "\<forall>r \<in> set (butlast rs). isl r \<Longrightarrow> rs \<noteq> [] \<Longrightarrow>
   milestones (run_events c a (Some ''Writer'') d rs) =
     (if isl (last rs) then [] else [WriterSucceeded])"
  by (induction c a "Some ''Writer''" d rs rule: run_events.induct) (auto split: if_splits)


lemma sleeps_query [simp]: "sleeps (map EvQueryRule ts) = []"
  by (induction ts) simp_all

lemma query_rules_eq:
  "query_rules env ts w =
     (map (query_rule env) ts, w\<lparr>trace := trace w @ map EvQueryRule ts\<rparr>)"
  by (induction ts arbitrary: w) (simp_all add: emit_def)

subsection \<open>The retry decorator\<close>

lemma invoke_chain_body_eq:
  "\<exists>r st. invoke_chain_body env c a m w =
     (r, w\<lparr>model_state := st, trace := trace w @ attempt_events c a m r\<rparr>)"
  by (auto simp: invoke_chain_body_def call_str_def emit_def
           split: prod.splits sum.splits option.splits)

text \<open>Three attempts at most: the recursion of \<open>retry 3\<close> from attempt 1, written out.\<close>

lemma invoke_chain_unroll:
  "invoke_chain env c a m w =
     (case invoke_chain_body env c a m w of
        (Inr v, w1) \<Rightarrow> (Inr v, w1)
      | (Inl e1, w1) \<Rightarrow>
          (case invoke_chain_body env c a m (emit (EvSleep 90) w1) of
             (Inr v, w2) \<Rightarrow> (Inr v, w2)
           | (Inl e2, w2) \<Rightarrow>
               (case invoke_chain_body env c a m (emit (EvSleep 90) w2) of
                  (Inr v, w3) \<Rightarrow> (Inr v, w3)
                | (Inl e3, w3) \<Rightarrow> (Inl (RetryError e3), w3))))"
  by (simp add: invoke_chain_def retry.simps split: prod.splits sum.splits)

lemma invoke_chain_runs:
  "\<exists>rs st. 1 \<le> length rs \<and> length rs \<le> 3 \<and> (\<forall>r \<in> set (butlast rs). isl r)
     \<and> (isl (last rs) \<longrightarrow> length rs = 3)
     \<and> invoke_chain env c a m w =
         (case last rs of Inr j \<Rightarrow> Inr j | Inl e \<Rightarrow> Inl (RetryError e),
          w\<lparr>model_state := st, trace := trace w @ run_events c a m 90 rs\<rparr>)"
proof -
  obtain r1 st1 where b1: "invoke_chain_body env c a m w =
      (r1, w\<lparr>model_state := st1, trace := trace w @ attempt_events c a m r1\<rparr>)"
    using invoke_chain_body_eq[of env c a m w] by auto
  let ?w1 = "w\<lparr>model_state := st1, trace := trace w @ attempt_events c a m r1\<rparr>"
  obtain r2 st2 where b2: "invoke_chain_body env c a m (emit (EvSleep 90) ?w1) =
      (r2, (emit (EvSleep 90) ?w1)\<lparr>model_state := st2,
            trace := trace (emit (EvSleep 90) ?w1) @ attempt_events c a m r2\<rparr>)"
    using invoke_chain_body_eq[of env c a m "emit (EvSleep 90) ?w1"] by auto
  let ?w2 = "(emit (EvSleep 90) ?w1)\<lparr>model_state := st2,
            trace := trace (emit (EvSleep 90) ?w1) @ attempt_events c a m r2\<rparr>"
  obtain r3 st3 where b3: "invoke_chain_body env c a m (emit (EvSleep 90) ?w2) =
      (r3, (emit (EvSleep 90) ?w2)\<lparr>model_state := st3,
            trace := trace (emit (EvSleep 90) ?w2) @ attempt_events c a m r3\<rparr>)"
    using invoke_chain_body_eq[of env c a m "emit (EvSleep 90) ?w2"] by auto
  show ?thesis
  proof (cases r1)
    case (Inr j)
    then show ?thesis using b1
      by (intro exI[of _ "[r1]"] exI[of _ st1]) (simp add: invoke_chain_unroll)
  next
    case e1: (Inl e1)
    show ?thesis
    proof (cases r2)
      case (Inr j)
      then show ?thesis using e1 b1 b2
        by (intro exI[of _ "[r1, r2]"] exI[of _ st2]) (simp add: invoke_chain_unroll emit_def)
    next
      case e2: (Inl e2)
      show ?thesis using e1 e2 b1 b2 b3
        by (intro exI[of _ "[r1, r2, r3]"] exI[of _ st3])
           (simp add: invoke_chain_unroll emit_def split: sum.splits)
    qed
  qed
qed

lemma invoke_chain_frame:
  assumes "invoke_chain env c a m w = (r, w')"
  shows "\<exists>rs. 1 \<le> length rs \<and> length rs \<le> 3 \<and> (\<forall>x \<in> set (butlast rs). isl x)
     \<and> (isl (last rs) \<longrightarrow> length rs = 3)
     \<and> r = (case last rs of Inr j \<Rightarrow> Inr j | Inl e \<Rightarrow> Inl (RetryError e))
     \<and> store w' = store w \<and> trace w' = trace w @ run_events c a m 90 rs"
  using invoke_chain_runs[of env c a m w] assms by auto

subsection \<open>The paths through \<^verbatim>\<open>respond_to_girl\<close>\<close>

lemma respond_analyzer_failed:
  assumes "invoke_analyzer env [(''summary'', get_record env n (store w)), (''messages'', m)]
             (model_state w) = (Inl e, st)"
  shows "respond_to_girl env n m w =
     (Inl e, w\<lparr>model_state := st,
               trace := trace w @
                 [EvGetRecord n,
                  EvInvoke analyzer_chain
                    [(''summary'', get_record env n (store w)), (''messages'', m)]]\<rparr>)"
  using assms by (simp add: respond_to_girl_def call_get_record_def call_analyzer_def emit_def)

lemma respond_contact:
  assumes "invoke_analyzer env [(''summary'', get_record env n (store w)), (''messages'', m)]
             (model_state w) = (Inr a, st)"
    and "contact a \<noteq> []"
  shows "respond_to_girl env n m w =
     contact_exit env n (contact a)
       (w\<lparr>model_state := st,
          trace := trace w @
            [EvGetRecord n,
             EvInvoke analyzer_chain
               [(''summary'', get_record env n (store w)), (''messages'', m)],
             EvPrintAnalyzer a]\<rparr>)"
  using assms
  by (simp add: respond_to_girl_def call_get_record_def call_analyzer_def emit_def truthy_def)

lemma respond_commander_failed:
  assumes "invoke_analyzer env [(''summary'', get_record env n (store w)), (''messages'', m)]
             (model_state w) = (Inr a, st)"
    and "contact a = []"
    and "invoke_commander env (commander_chain (future_step a))
           [(''summary'', summary a), (''messages'', m)] st = (Inl e, st')"
  shows "respond_to_girl env n m w =
     (Inl e, w\<lparr>model_state := st',
               trace := trace w @
                 [EvGetRecord n,
                  EvInvoke analyzer_chain
                    [(''summary'', get_record env n (store w)), (''messages'', m)],
                  EvPrintAnalyzer a,
                  EvInvoke (commander_chain (future_step a))
                    [(''summary'', summary a), (''messages'', m)]]\<rparr>)"
  using assms
  by (simp add: respond_to_girl_def call_get_record_def call_analyzer_def emit_def truthy_def
        call_commander_def)

lemma respond_reply:
  assumes "invoke_analyzer env [(''summary'', get_record env n (store w)), (''messages'', m)]
             (model_state w) = (Inr a, st)"
    and "contact a = []"
    and "invoke_commander env (commander_chain (future_step a))
           [(''summary'', summary a), (''messages'', m)] st = (Inr c, st')"
  shows "respond_to_girl env n m w =
     after_writer env n a (tags c)
       (invoke_chain env writer_chain
          (writer_args env (map (query_rule env) (tags c)) m) (Some ''Writer'')
          (w\<lparr>model_state := st',
             trace := trace w @
               [EvGetRecord n,
                EvInvoke analyzer_chain
                  [(''summary'', get_record env n (store w)), (''messages'', m)],
                EvPrintAnalyzer a,
                EvInvoke (commander_chain (future_step a))
                  [(''summary'', summary a), (''messages'', m)]]
               @ map EvQueryRule (tags c)\<rparr>))"
  using assms
  by (simp add: respond_to_girl_def call_get_record_def call_analyzer_def emit_def truthy_def
        call_commander_def write_and_persist_def query_rules_eq)

lemma after_writer_frame:
  assumes "after_writer env n a tgs (r, w1) = (res, w2)"
  shows "\<exists>evs. trace w2 = trace w1 @ evs
      \<and> calls_to Commander evs = [] \<and> calls_to Writer evs = []
      \<and> length (calls_to Analyzer evs) \<le> 1 \<and> sleeps evs = []
      \<and> (case res of
            Inl e \<Rightarrow> store w2 = store w1 \<and> upserts evs = [] \<and> milestones evs = []
          | Inr v \<Rightarrow> (\<exists>j msgs s. r = Inr j \<and> getitem j ''message'' = Inr msgs \<and> v = Some msgs
                \<and> upserts evs = [(n, Some s, False)] \<and> milestones evs = [StoreWritten]
                \<and> store w2 = upsert_record env n (Some s) False (store w1)))"
  using assms
  by (auto simp: after_writer_def refresh_summary_def call_analyzer_def call_upsert_record_def
        emit_def analyzer_chain_def
      split: sum.splits prod.splits if_splits)


lemma respond_reply_frame:
  assumes an: "invoke_analyzer env [(''summary'', get_record env n (store w)), (''messages'', m)]
             (model_state w) = (Inr a, st)"
    and nc: "contact a = []"
    and co: "invoke_commander env (commander_chain (future_step a))
           [(''summary'', summary a), (''messages'', m)] st = (Inr c, st')"
    and run: "respond_to_girl env n m w = (res, w')"
  shows "\<exists>rs evs. 1 \<le> length rs \<and> length rs \<le> 3 \<and> (\<forall>x \<in> set (butlast rs). isl x)
     \<and> (isl (last rs) \<longrightarrow> length rs = 3)
     \<and> trace w' = trace w @
               [EvGetRecord n,
                EvInvoke analyzer_chain
                  [(''summary'', get_record env n (store w)), (''messages'', m)],
                EvPrintAnalyzer a,
                EvInvoke (commander_chain (future_step a))
                  [(''summary'', summary a), (''messages'', m)]]
               @ map EvQueryRule (tags c)
               @ run_events writer_chain (writer_args env (map (query_rule env) (tags c)) m)
                   (Some ''Writer'') 90 rs
               @ evs
     \<and> calls_to Commander evs = [] \<and> calls_to Writer evs = []
     \<and> length (calls_to Analyzer evs) \<le> 1 \<and> sleeps evs = []
     \<and> (case res of
           Inl e \<Rightarrow> store w' = store w \<and> upserts evs = [] \<and> milestones evs = []
         | Inr v \<Rightarrow> (\<exists>j msgs s. last rs = Inr j \<and> getitem j ''message'' = Inr msgs
               \<and> v = Some msgs
               \<and> upserts evs = [(n, Some s, False)] \<and> milestones evs = [StoreWritten]
               \<and> store w' = upsert_record env n (Some s) False (store w)))"
proof -
  let ?w5 = "w\<lparr>model_state := st',
             trace := trace w @
               [EvGetRecord n,
                EvInvoke analyzer_chain
                  [(''summary'', get_record env n (store w)), (''messages'', m)],
                EvPrintAnalyzer a,
                EvInvoke (commander_chain (future_step a))
                  [(''summary'', summary a), (''messages'', m)]]
               @ map EvQueryRule (tags c)\<rparr>"
  let ?wa = "writer_args env (map (query_rule env) (tags c)) m"
  obtain r w6 where ic: "invoke_chain env writer_chain ?wa (Some ''Writer'') ?w5 = (r, w6)"
    by (cases "invoke_chain env writer_chain ?wa (Some ''Writer'') ?w5") blast
  from invoke_chain_frame[OF ic] obtain rs where
    rs: "1 \<le> length rs" "length rs \<le> 3" "\<forall>x \<in> set (butlast rs). isl x"
      "isl (last rs) \<longrightarrow> length rs = 3"
    and r: "r = (case last rs of Inr j \<Rightarrow> Inr j | Inl e \<Rightarrow> Inl (RetryError e))"
    and st6: "store w6 = store w"
    and tr6: "trace w6 = trace ?w5 @ run_events writer_chain ?wa (Some ''Writer'') 90 rs"
    by auto
  have aw: "after_writer env n a (tags c) (r, w6) = (res, w')"
    using respond_reply[OF an nc co] ic run by simp
  from after_writer_frame[OF aw] obtain evs where
    evs: "trace w' = trace w6 @ evs" "calls_to Commander evs = []" "calls_to Writer evs = []"
      "length (calls_to Analyzer evs) \<le> 1" "sleeps evs = []"
    and res: "case res of
            Inl e \<Rightarrow> store w' = store w6 \<and> upserts evs = [] \<and> milestones evs = []
          | Inr v \<Rightarrow> (\<exists>j msgs s. r = Inr j \<and> getitem j ''message'' = Inr msgs \<and> v = Some msgs
                \<and> upserts evs = [(n, Some s, False)] \<and> milestones evs = [StoreWritten]
                \<and> store w' = upsert_record env n (Some s) False (store w6))"
    by blast
  have res': "case res of
           Inl e \<Rightarrow> store w' = store w \<and> upserts evs = [] \<and> milestones evs = []
         | Inr v \<Rightarrow> (\<exists>j msgs s. last rs = Inr j \<and> getitem j ''message'' = Inr msgs
               \<and> v = Some msgs
               \<and> upserts evs = [(n, Some s, False)] \<and> milestones evs = [StoreWritten]
               \<and> store w' = upsert_record env n (Some s) False (store w))"
    using res r st6 by (cases res; cases "last rs") auto
  show ?thesis
    using rs evs res' tr6 by (intro exI[of _ rs] exI[of _ evs]) simp
qed

lemma contact_exit_frame:
  assumes "contact_exit env n ct w1 = (res, w2)"
  shows "\<exists>evs. trace w2 = trace w1 @ evs \<and> model_state w2 = model_state w1
      \<and> calls_to k evs = [] \<and> sleeps evs = [] \<and> milestones evs = map (\<lambda>x. StoreWritten) (upserts evs)
      \<and> (push_notes evs \<noteq> [] \<longrightarrow> pushbullet env \<noteq> None)
      \<and> (case res of
            Inl e \<Rightarrow> store w2 = store w1 \<and> upserts evs = []
          | Inr v \<Rightarrow> v = None \<and> pushbullet env \<noteq> None
              \<and> upserts evs = [(n, None, True)]
              \<and> push_notes evs = [(''I planned date with '' @ n, ct)]
              \<and> store w2 = upsert_record env n None True (store w1))"
  using assms
  by (auto simp: contact_exit_def call_requests_get_def call_push_note_def
        call_upsert_record_def emit_def
      split: option.splits if_splits prod.splits)

lemma join_append:
  "xs \<noteq> [] \<Longrightarrow> ys \<noteq> [] \<Longrightarrow> join sep (xs @ ys) = join sep xs @ sep @ join sep ys"
  by (induction sep xs rule: join.induct) (auto simp: neq_Nil_conv)

text \<open>
  The contact-exit path when the push client exists and both notifications are delivered,
  and what holds on it in any case.
\<close>

lemma contact_exit_with_push:
  assumes "invoke_analyzer env [(''summary'', get_record env n (store w)), (''messages'', m)]
             (model_state w) = (Inr a, st)"
    and "contact a \<noteq> []"
    and "pushbullet_key env = Some k" and "k \<noteq> []"
    and "push_note env k (''I planned date with '' @ n) (contact a) = None"
    and "\<forall>hook. notifications_hook env = Some hook \<and> hook \<noteq> [] \<longrightarrow>
           requests_get env hook [(''name_age'', n), (''contact'', contact a)] = None"
  shows "fst (respond_to_girl env n m w) = Inr None
     \<and> store (snd (respond_to_girl env n m w)) = upsert_record env n None True (store w)
     \<and> upserts (new_events w (snd (respond_to_girl env n m w))) = [(n, None, True)]
     \<and> push_notes (new_events w (snd (respond_to_girl env n m w))) =
          [(''I planned date with '' @ n, contact a)]
     \<and> calls_to Commander (new_events w (snd (respond_to_girl env n m w))) = []
     \<and> calls_to Writer (new_events w (snd (respond_to_girl env n m w))) = []"
  using assms
  by (auto simp: respond_contact contact_exit_def pushbullet_def truthy_def
        call_requests_get_def call_push_note_def call_upsert_record_def
        emit_def new_events_def analyzer_chain_def split: option.splits)

lemma contact_exit_calls_nobody:
  assumes "invoke_analyzer env [(''summary'', get_record env n (store w)), (''messages'', m)]
             (model_state w) = (Inr a, st)"
    and "contact a \<noteq> []"
  shows "calls_to Commander (new_events w (snd (respond_to_girl env n m w))) = []
     \<and> calls_to Writer (new_events w (snd (respond_to_girl env n m w))) = []
     \<and> (\<forall>k s b. (k, s, b) \<in> set (upserts (new_events w (snd (respond_to_girl env n m w))))
           \<longrightarrow> s = None \<and> b)
     \<and> (push_notes (new_events w (snd (respond_to_girl env n m w))) \<noteq> []
           \<longrightarrow> pushbullet env \<noteq> None)"
  using assms
  by (auto simp: respond_contact contact_exit_def pushbullet_def truthy_def
        call_requests_get_def call_push_note_def call_upsert_record_def
        emit_def new_events_def analyzer_chain_def split: option.splits)

text \<open>The definitions a concrete run unfolds.\<close>

lemmas model_defs =
  respond_to_girl_def call_get_record_def call_analyzer_def call_commander_def call_str_def
  call_upsert_record_def call_requests_get_def call_push_note_def contact_exit_def
  write_and_persist_def writer_args_def
  after_writer_def refresh_summary_def invoke_chain_unroll invoke_chain_body_def
  pushbullet_def truthy_def emit_def commander_chain_def analyzer_chain_def writer_chain_def
  scripted_env_def fresh_world_def day_reply_json_def

text \<open>
  A webhook request that raises ends the cycle there: no push, no store write, although the
  push key is set.
\<close>

lemma contact_exit_webhook_unreachable:
  "respond_to_girl (scripted_env (Some ''https://unreachable.example/date'') (Some ''o.abc''))
     ''Jane, 25'' ''insta: jane_doe''
     (fresh_world
        ([Inr \<lparr>summary = ''We are on step 2.'', future_step = ''step2'',
               contact = ''Instagram jane_doe''\<rparr>], [], []))
   = (Inl (RequestException ''connection refused''),
      \<lparr>store = [], model_state = ([], [], []),
       trace = [EvGetRecord ''Jane, 25'',
                EvInvoke analyzer_chain
                  [(''summary'', ''''), (''messages'', ''insta: jane_doe'')],
                EvPrintAnalyzer
                  \<lparr>summary = ''We are on step 2.'', future_step = ''step2'',
                   contact = ''Instagram jane_doe''\<rparr>,
                EvWebhook ''https://unreachable.example/date''
                  [(''name_age'', ''Jane, 25''), (''contact'', ''Instagram jane_doe'')]]\<rparr>)"
  by (simp add: model_defs)

subsection \<open>Claims\<close>

text \<open>
  C10. The Commander chain selector compares \<^verbatim>\<open>future_step\<close> with the exact string
  \<^verbatim>\<open>'step1'\<close> and nothing else: the step1 chain is returned for that string only, and every
  other value, \<^verbatim>\<open>'step3'\<close> and the empty string included, gets the step2 chain, whose schema
  names four tags.
\<close>

theorem commander_chain_step1_only:
  "(commander_chain fs =
      create_structured_output_runnable CommanderStep1Output Commander commander_step1_prompt)
     = (fs = ''step1'')
   \<and> (commander_chain fs =
      create_structured_output_runnable CommanderStep2Output Commander commander_step2_prompt)
     = (fs \<noteq> ''step1'')
   \<and> chain_schema (commander_chain ''step3'') = Some CommanderStep2Output
   \<and> chain_schema (commander_chain '''') = Some CommanderStep2Output
   \<and> length (tag_vocabulary CommanderStep2Output) = 4"
  by (simp add: commander_chain_def)



text \<open>
  C4. In a cycle whose first Analyzer call returns an empty \<^verbatim>\<open>contact\<close>, the Commander is invoked
  exactly once, on the chain selected by the \<^verbatim>\<open>future_step\<close> the Analyzer returned and with the
  Analyzer's summary; \<^verbatim>\<open>'step1'\<close> selects the schema with three tags, \<^verbatim>\<open>'step2'\<close> the schema with
  four.
\<close>

theorem commander_invoked_with_future_step:
  assumes "invoke_analyzer env [(''summary'', get_record env n (store w)), (''messages'', m)]
             (model_state w) = (Inr a, st)"
    and "contact a = []"
  shows "calls_to Commander (new_events w (snd (respond_to_girl env n m w))) =
           [(commander_chain (future_step a), [(''summary'', summary a), (''messages'', m)])]
     \<and> commander_chain ''step1'' =
           create_structured_output_runnable CommanderStep1Output Commander commander_step1_prompt
     \<and> length (tag_vocabulary CommanderStep1Output) = 3
     \<and> commander_chain ''step2'' =
           create_structured_output_runnable CommanderStep2Output Commander commander_step2_prompt
     \<and> length (tag_vocabulary CommanderStep2Output) = 4"
proof -
  have cm: "chain_model (commander_chain (future_step a)) = Commander"
    by (simp add: commander_chain_def)
  obtain rc st' where co: "invoke_commander env (commander_chain (future_step a))
           [(''summary'', summary a), (''messages'', m)] st = (rc, st')"
    by (cases "invoke_commander env (commander_chain (future_step a))
           [(''summary'', summary a), (''messages'', m)] st") blast
  obtain res w' where run: "respond_to_girl env n m w = (res, w')"
    by (cases "respond_to_girl env n m w") blast
  have "calls_to Commander (new_events w w') =
           [(commander_chain (future_step a), [(''summary'', summary a), (''messages'', m)])]"
  proof (cases rc)
    case (Inl e)
    then show ?thesis
      using respond_commander_failed[OF assms] co run cm
      by (auto simp: analyzer_chain_def)
  next
    case (Inr c)
    from respond_reply_frame[OF assms co[unfolded Inr] run] obtain rs evs where
      "trace w' = trace w @
               [EvGetRecord n,
                EvInvoke analyzer_chain
                  [(''summary'', get_record env n (store w)), (''messages'', m)],
                EvPrintAnalyzer a,
                EvInvoke (commander_chain (future_step a))
                  [(''summary'', summary a), (''messages'', m)]]
               @ map EvQueryRule (tags c)
               @ run_events writer_chain (writer_args env (map (query_rule env) (tags c)) m)
                   (Some ''Writer'') 90 rs
               @ evs" "calls_to Commander evs = []"
      by blast
    then show ?thesis
      using cm by (simp add: analyzer_chain_def writer_chain_def)
  qed
  then show ?thesis
    using run by (simp add: commander_chain_def)
qed

theorem commander_invoked_with_future_step_witness:
  "contact \<lparr>summary = ''We are on step 2.'', future_step = ''step2'', contact = ''''\<rparr> = []
   \<and> calls_to Commander
        (new_events
           (fresh_world
              ([Inr \<lparr>summary = ''We are on step 2.'', future_step = ''step2'', contact = ''''\<rparr>],
               [Inr \<lparr>reasoning = ''Build comfort.'', tags = [''Comfort'']\<rparr>],
               [Inr day_reply]))
           (snd (respond_to_girl (scripted_env None None) ''Jane, 25'' ''hi''
              (fresh_world
                 ([Inr \<lparr>summary = ''We are on step 2.'', future_step = ''step2'', contact = ''''\<rparr>],
                  [Inr \<lparr>reasoning = ''Build comfort.'', tags = [''Comfort'']\<rparr>],
                  [Inr day_reply])))))
      = [(create_structured_output_runnable CommanderStep2Output Commander commander_step2_prompt,
          [(''summary'', ''We are on step 2.''), (''messages'', ''hi'')])]"
  using commander_invoked_with_future_step[where env = "scripted_env None None"
      and n = "''Jane, 25''" and m = "''hi''"
      and w = "fresh_world
              ([Inr \<lparr>summary = ''We are on step 2.'', future_step = ''step2'', contact = ''''\<rparr>],
               [Inr \<lparr>reasoning = ''Build comfort.'', tags = [''Comfort'']\<rparr>],
               [Inr day_reply])"
      and a = "\<lparr>summary = ''We are on step 2.'', future_step = ''step2'', contact = ''''\<rparr>"
      and st = "([], [Inr \<lparr>reasoning = ''Build comfort.'', tags = [''Comfort'']\<rparr>],
               [Inr day_reply])"]
  by (simp add: scripted_env_def fresh_world_def commander_chain_def)

text \<open>
  C7. A cycle that ends in an exception, a Writer whose retries are exhausted included,
  leaves the store as it was and makes no store write; the store changes only through a
  store write; and on the path without contact the only store write comes after the
  Writer's successful attempt.
\<close>

theorem no_persist_unless_writer_succeeded:
  "(let r = respond_to_girl env n m w; evs = new_events w (snd r) in
     (isl (fst r) \<longrightarrow> store (snd r) = store w \<and> upserts evs = [])
     \<and> (upserts evs = [] \<longrightarrow> store (snd r) = store w)
     \<and> (\<forall>a st. invoke_analyzer env
                  [(''summary'', get_record env n (store w)), (''messages'', m)]
                  (model_state w) = (Inr a, st) \<and> contact a = []
          \<longrightarrow> milestones evs \<in> {[], [WriterSucceeded], [WriterSucceeded, StoreWritten]}))"
proof -
  obtain res w' where run: "respond_to_girl env n m w = (res, w')"
    by (cases "respond_to_girl env n m w") blast
  obtain ra st where an: "invoke_analyzer env
                  [(''summary'', get_record env n (store w)), (''messages'', m)]
                  (model_state w) = (ra, st)"
    by (cases "invoke_analyzer env
                  [(''summary'', get_record env n (store w)), (''messages'', m)]
                  (model_state w)") blast
  have "(isl res \<longrightarrow> store w' = store w \<and> upserts (new_events w w') = [])
     \<and> (upserts (new_events w w') = [] \<longrightarrow> store w' = store w)
     \<and> (\<forall>a. ra = Inr a \<and> contact a = []
          \<longrightarrow> milestones (new_events w w') \<in>
                {[], [WriterSucceeded], [WriterSucceeded, StoreWritten]})"
  proof (cases ra)
    case (Inl e)
    then show ?thesis
      using respond_analyzer_failed[OF an[unfolded Inl]] run by auto
  next
    case (Inr a)
    note an' = an[unfolded Inr]
    show ?thesis
    proof (cases "contact a = []")
      case False
      from respond_contact[OF an' False] run
      have "contact_exit env n (contact a)
       (w\<lparr>model_state := st,
          trace := trace w @
            [EvGetRecord n,
             EvInvoke analyzer_chain
               [(''summary'', get_record env n (store w)), (''messages'', m)],
             EvPrintAnalyzer a]\<rparr>) = (res, w')" by simp
      from contact_exit_frame[OF this, of Analyzer] show ?thesis
        using False Inr by (cases res) auto
    next
      case True
      obtain rc st' where co: "invoke_commander env (commander_chain (future_step a))
           [(''summary'', summary a), (''messages'', m)] st = (rc, st')"
        by (cases "invoke_commander env (commander_chain (future_step a))
           [(''summary'', summary a), (''messages'', m)] st") blast
      show ?thesis
      proof (cases rc)
        case (Inl e)
        then show ?thesis
          using respond_commander_failed[OF an' True] co run by auto
      next
        case c: (Inr c)
        from respond_reply_frame[OF an' True co[unfolded c] run] obtain rs evs where
          rs: "1 \<le> length rs" "\<forall>x \<in> set (butlast rs). isl x"
          and tr: "trace w' = trace w @
               [EvGetRecord n,
                EvInvoke analyzer_chain
                  [(''summary'', get_record env n (store w)), (''messages'', m)],
                EvPrintAnalyzer a,
                EvInvoke (commander_chain (future_step a))
                  [(''summary'', summary a), (''messages'', m)]]
               @ map EvQueryRule (tags c)
               @ run_events writer_chain (writer_args env (map (query_rule env) (tags c)) m)
                   (Some ''Writer'') 90 rs
               @ evs"
          and res: "case res of
           Inl e \<Rightarrow> store w' = store w \<and> upserts evs = [] \<and> milestones evs = []
         | Inr v \<Rightarrow> (\<exists>j msgs s. last rs = Inr j \<and> getitem j ''message'' = Inr msgs
               \<and> v = Some msgs
               \<and> upserts evs = [(n, Some s, False)] \<and> milestones evs = [StoreWritten]
               \<and> store w' = upsert_record env n (Some s) False (store w))"
          by blast
        have ne: "rs \<noteq> []" using rs(1) by auto
        show ?thesis
          using res tr Inr run_events_milestones[OF rs(2) ne]
          by (cases res) auto
      qed
    qed
  qed
  then show ?thesis
    using run an by (auto simp: Let_def)
qed

theorem no_persist_unless_writer_succeeded_witness:
  "fst (respond_to_girl (scripted_env None None) ''Jane, 25'' ''hi''
         (fresh_world
            ([Inr \<lparr>summary = ''We are on step 1.'', future_step = ''step1'', contact = ''''\<rparr>],
             [Inr \<lparr>reasoning = ''Get to know her.'', tags = [''Bond'']\<rparr>],
             [Inl (ChainError ''timeout''), Inl (ChainError ''timeout''),
              Inl (ChainError ''rate limit'')])))
     = Inl (RetryError (ChainError ''rate limit''))
   \<and> store (snd (respond_to_girl (scripted_env None None) ''Jane, 25'' ''hi''
         (fresh_world
            ([Inr \<lparr>summary = ''We are on step 1.'', future_step = ''step1'', contact = ''''\<rparr>],
             [Inr \<lparr>reasoning = ''Get to know her.'', tags = [''Bond'']\<rparr>],
             [Inl (ChainError ''timeout''), Inl (ChainError ''timeout''),
              Inl (ChainError ''rate limit'')])))) = []
   \<and> milestones (new_events
         (fresh_world
            ([Inr \<lparr>summary = ''We are on step 1.'', future_step = ''step1'', contact = ''''\<rparr>],
             [Inr \<lparr>reasoning = ''Get to know her.'', tags = [''Bond'']\<rparr>],
             [Inl (ChainError ''timeout''), Inl (ChainError ''timeout''),
              Inl (ChainError ''rate limit'')]))
         (snd (respond_to_girl (scripted_env None None) ''Jane, 25'' ''hi''
         (fresh_world
            ([Inr \<lparr>summary = ''We are on step 1.'', future_step = ''step1'', contact = ''''\<rparr>],
             [Inr \<lparr>reasoning = ''Get to know her.'', tags = [''Bond'']\<rparr>],
             [Inl (ChainError ''timeout''), Inl (ChainError ''timeout''),
              Inl (ChainError ''rate limit'')]))))) = []"
proof -
  have run: "fst (respond_to_girl (scripted_env None None) ''Jane, 25'' ''hi''
         (fresh_world
            ([Inr \<lparr>summary = ''We are on step 1.'', future_step = ''step1'', contact = ''''\<rparr>],
             [Inr \<lparr>reasoning = ''Get to know her.'', tags = [''Bond'']\<rparr>],
             [Inl (ChainError ''timeout''), Inl (ChainError ''timeout''),
              Inl (ChainError ''rate limit'')])))
     = Inl (RetryError (ChainError ''rate limit''))"
    by (simp add: model_defs)
  show ?thesis
    using run no_persist_unless_writer_succeeded[where env = "scripted_env None None"
      and n = "''Jane, 25''" and m = "''hi''"
      and w = "fresh_world
            ([Inr \<lparr>summary = ''We are on step 1.'', future_step = ''step1'', contact = ''''\<rparr>],
             [Inr \<lparr>reasoning = ''Get to know her.'', tags = [''Bond'']\<rparr>],
             [Inl (ChainError ''timeout''), Inl (ChainError ''timeout''),
              Inl (ChainError ''rate limit'')])"]
    by (simp add: Let_def fresh_world_def new_events_def model_defs)
qed

text \<open>
  C8. On the path without contact, every Writer invocation of the cycle (there is at least
  one) receives as \<^verbatim>\<open>rules\<close> the texts \<^verbatim>\<open>query_rule\<close> gives for the Commander's tags, in the
  order of the tags, joined by the one separator \<^verbatim>\<open>"\n###\n- "\<close>; joining a concatenation of
  two tag lists is joining each and putting the separator between; and what the lookups
  return does not depend on when they are made, so resolving the same tags twice gives the
  same texts.
\<close>

theorem rules_joined_in_tag_order:
  assumes an: "invoke_analyzer env [(''summary'', get_record env n (store w)), (''messages'', m)]
             (model_state w) = (Inr a, st)"
    and nc: "contact a = []"
    and co: "invoke_commander env (commander_chain (future_step a))
           [(''summary'', summary a), (''messages'', m)] st = (Inr c, st')"
  shows "(let calls = calls_to Writer (new_events w (snd (respond_to_girl env n m w))) in
            calls \<noteq> []
            \<and> set calls =
                {(writer_chain,
                  [(''rules'', join rules_separator (map (query_rule env) (tags c))),
                   (''messages'', m), (''language'', language env), (''city'', city env)])})
     \<and> rules_separator = [CHR 0x0A, CHR ''#'', CHR ''#'', CHR ''#'', CHR 0x0A, CHR ''-'', CHR '' '']
     \<and> (xs \<noteq> [] \<and> ys \<noteq> [] \<longrightarrow>
          join rules_separator (map (query_rule env) (xs @ ys)) =
            join rules_separator (map (query_rule env) xs) @ rules_separator
              @ join rules_separator (map (query_rule env) ys))
     \<and> fst (query_rules env ts w1) = map (query_rule env) ts
     \<and> fst (query_rules env ts w1) = fst (query_rules env ts w2)"
proof -
  obtain res w' where run: "respond_to_girl env n m w = (res, w')"
    by (cases "respond_to_girl env n m w") blast
  from respond_reply_frame[OF an nc co run] obtain rs evs where
    rs: "1 \<le> length rs"
    and tr: "trace w' = trace w @
               [EvGetRecord n,
                EvInvoke analyzer_chain
                  [(''summary'', get_record env n (store w)), (''messages'', m)],
                EvPrintAnalyzer a,
                EvInvoke (commander_chain (future_step a))
                  [(''summary'', summary a), (''messages'', m)]]
               @ map EvQueryRule (tags c)
               @ run_events writer_chain (writer_args env (map (query_rule env) (tags c)) m)
                   (Some ''Writer'') 90 rs
               @ evs"
    and ev: "calls_to Writer evs = []"
    by blast
  have cm: "chain_model (commander_chain (future_step a)) = Commander"
    by (simp add: commander_chain_def)
  have "calls_to Writer (new_events w w') =
          replicate (length rs)
            (writer_chain, writer_args env (map (query_rule env) (tags c)) m)"
    using tr ev cm by (simp add: analyzer_chain_def writer_chain_def)
  then have calls: "let calls = calls_to Writer (new_events w (snd (respond_to_girl env n m w))) in
            calls \<noteq> []
            \<and> set calls =
                {(writer_chain,
                  [(''rules'', join rules_separator (map (query_rule env) (tags c))),
                   (''messages'', m), (''language'', language env), (''city'', city env)])}"
    using rs run by (auto simp: Let_def writer_args_def)
  show ?thesis
    using calls by (simp add: rules_separator_def join_append query_rules_eq)
qed

theorem rules_joined_in_tag_order_witness:
  "contact \<lparr>summary = ''We are on step 1.'', future_step = ''step1'', contact = ''''\<rparr> = []
   \<and> set (calls_to Writer
        (new_events
           (fresh_world
              ([Inr \<lparr>summary = ''We are on step 1.'', future_step = ''step1'', contact = ''''\<rparr>],
               [Inr \<lparr>reasoning = ''Get to know her.'', tags = [''Bond'', ''Storytelling'']\<rparr>],
               [Inl (ChainError ''timeout''), Inr day_reply]))
           (snd (respond_to_girl (scripted_env None None) ''Jane, 25'' ''hi''
              (fresh_world
                 ([Inr \<lparr>summary = ''We are on step 1.'', future_step = ''step1'', contact = ''''\<rparr>],
                  [Inr \<lparr>reasoning = ''Get to know her.'', tags = [''Bond'', ''Storytelling'']\<rparr>],
                  [Inl (ChainError ''timeout''), Inr day_reply]))))))
      = {(writer_chain,
          [(''rules'',
            ''Ask about her day.'' @ [CHR 0x0A] @ ''###'' @ [CHR 0x0A] @ ''- Rule: Storytelling''),
           (''messages'', ''hi''), (''language'', ''English''), (''city'', ''Warsaw'')])}"
  using rules_joined_in_tag_order[where env = "scripted_env None None"
      and n = "''Jane, 25''" and m = "''hi''"
      and w = "fresh_world
              ([Inr \<lparr>summary = ''We are on step 1.'', future_step = ''step1'', contact = ''''\<rparr>],
               [Inr \<lparr>reasoning = ''Get to know her.'', tags = [''Bond'', ''Storytelling'']\<rparr>],
               [Inl (ChainError ''timeout''), Inr day_reply])"
      and a = "\<lparr>summary = ''We are on step 1.'', future_step = ''step1'', contact = ''''\<rparr>"
      and st = "([], [Inr \<lparr>reasoning = ''Get to know her.'', tags = [''Bond'', ''Storytelling'']\<rparr>],
               [Inl (ChainError ''timeout''), Inr day_reply])"
      and c = "\<lparr>reasoning = ''Get to know her.'', tags = [''Bond'', ''Storytelling'']\<rparr>"
      and st' = "([], [], [Inl (ChainError ''timeout''), Inr day_reply])"
      and xs = "[''Bond'']" and ys = "[''Storytelling'']"]
  by (simp add: scripted_env_def fresh_world_def commander_chain_def Let_def rules_separator_def)



text \<open>
  C5. Take a cycle on the path without contact in which the Writer call returned a result
  with a \<^verbatim>\<open>message\<close> entry. If the Commander's tags contain neither \<^verbatim>\<open>Attractive guy image\<close>
  nor \<^verbatim>\<open>Storytelling\<close> (as for \<^verbatim>\<open>["Bond"]\<close>), the Analyzer is invoked once in the whole cycle
  and the summary of that call is the one written to the store. If the tags contain one of
  the two and the second Analyzer call succeeds, the Analyzer is invoked exactly twice, the
  second time before the store write, and the summary of the second call is the one written.
\<close>

theorem summary_refresh_gating:
  assumes an: "invoke_analyzer env [(''summary'', get_record env n (store w)), (''messages'', m)]
             (model_state w) = (Inr a, st)"
    and nc: "contact a = []"
    and co: "invoke_commander env (commander_chain (future_step a))
           [(''summary'', summary a), (''messages'', m)] st = (Inr c, st')"
    and wr: "invoke_chain env writer_chain
              (writer_args env (map (query_rule env) (tags c)) m) (Some ''Writer'')
              (w\<lparr>model_state := st',
                 trace := trace w @
                   [EvGetRecord n,
                    EvInvoke analyzer_chain
                      [(''summary'', get_record env n (store w)), (''messages'', m)],
                    EvPrintAnalyzer a,
                    EvInvoke (commander_chain (future_step a))
                      [(''summary'', summary a), (''messages'', m)]]
                   @ map EvQueryRule (tags c)\<rparr>) = (Inr out, w_out)"
    and gi: "getitem out ''message'' = Inr msgs"
  shows "(''Attractive guy image'' \<notin> set (tags c) \<and> ''Storytelling'' \<notin> set (tags c) \<longrightarrow>
           calls_to Analyzer (new_events w (snd (respond_to_girl env n m w))) =
             [(analyzer_chain,
               [(''summary'', get_record env n (store w)), (''messages'', m)])]
           \<and> respond_to_girl env n m w =
               (Inr (Some msgs),
                w_out\<lparr>store := upsert_record env n (Some (summary a)) False (store w),
                      trace := trace w_out @ [EvUpsert n (Some (summary a)) False]\<rparr>))
     \<and> ((''Attractive guy image'' \<in> set (tags c) \<or> ''Storytelling'' \<in> set (tags c))
          \<and> invoke_analyzer env
                [(''summary'', summary a), (''messages'', ''Conversator: '' @ py_str env msgs)]
                (model_state w_out) = (Inr a', st'') \<longrightarrow>
           calls_to Analyzer (new_events w (snd (respond_to_girl env n m w))) =
             [(analyzer_chain,
               [(''summary'', get_record env n (store w)), (''messages'', m)]),
              (analyzer_chain,
               [(''summary'', summary a),
                (''messages'', ''Conversator: '' @ py_str env msgs)])]
           \<and> respond_to_girl env n m w =
               (Inr (Some msgs),
                w_out\<lparr>store := upsert_record env n (Some (summary a')) False (store w),
                      model_state := st'',
                      trace := trace w_out @
                        [EvInvoke analyzer_chain
                           [(''summary'', summary a),
                            (''messages'', ''Conversator: '' @ py_str env msgs)],
                         EvPrintAnalyzer a,
                         EvUpsert n (Some (summary a')) False]\<rparr>))"
proof -
  from invoke_chain_frame[OF wr] obtain rs where
    st6: "store w_out = store w"
    and tr6: "trace w_out = trace w @
                   [EvGetRecord n,
                    EvInvoke analyzer_chain
                      [(''summary'', get_record env n (store w)), (''messages'', m)],
                    EvPrintAnalyzer a,
                    EvInvoke (commander_chain (future_step a))
                      [(''summary'', summary a), (''messages'', m)]]
                   @ map EvQueryRule (tags c)
                   @ run_events writer_chain (writer_args env (map (query_rule env) (tags c)) m)
                       (Some ''Writer'') 90 rs"
    by auto
  have cm: "chain_model (commander_chain (future_step a)) = Commander"
    by (simp add: commander_chain_def)
  have ca: "calls_to Analyzer (drop (length (trace w)) (trace w_out)) =
      [(analyzer_chain, [(''summary'', get_record env n (store w)), (''messages'', m)])]"
    using cm by (simp add: tr6 analyzer_chain_def writer_chain_def)
  have len: "length (trace w) \<le> length (trace w_out)"
    by (simp add: tr6)
  show ?thesis
    unfolding respond_reply[OF an nc co] wr
    using gi st6 ca len
    by (auto simp: after_writer_def refresh_summary_def call_analyzer_def call_upsert_record_def
          emit_def new_events_def analyzer_chain_def)
qed

theorem summary_refresh_gating_witness:
  "(let r = respond_to_girl (scripted_env None None) ''Jane, 25'' ''hi''
         (fresh_world
            ([Inr \<lparr>summary = ''We are on step 1.'', future_step = ''step1'', contact = ''''\<rparr>,
              Inr \<lparr>summary = ''Never asked.'', future_step = ''step1'', contact = ''''\<rparr>],
             [Inr \<lparr>reasoning = ''Get to know her.'', tags = [''Bond'']\<rparr>],
             [Inr day_reply]))
    in length (calls_to Analyzer (trace (snd r))) = 1
       \<and> store (snd r) = [(''Jane, 25'', Some ''We are on step 1.'', False)])
   \<and> (let r = respond_to_girl (scripted_env None None) ''Jane, 25'' ''hi''
         (fresh_world
            ([Inr \<lparr>summary = ''We are on step 1.'', future_step = ''step1'', contact = ''''\<rparr>,
              Inr \<lparr>summary = ''We are on step 1. Fun stories (1/1).'', future_step = ''step1'',
                   contact = ''''\<rparr>],
             [Inr \<lparr>reasoning = ''Tell a story.'', tags = [''Storytelling'']\<rparr>],
             [Inr day_reply]))
    in length (calls_to Analyzer (trace (snd r))) = 2
       \<and> store (snd r) = [(''Jane, 25'', Some ''We are on step 1. Fun stories (1/1).'', False)])"
  using summary_refresh_gating[where env = "scripted_env None None"
      and n = "''Jane, 25''" and m = "''hi''"
      and w = "fresh_world
            ([Inr \<lparr>summary = ''We are on step 1.'', future_step = ''step1'', contact = ''''\<rparr>,
              Inr \<lparr>summary = ''Never asked.'', future_step = ''step1'', contact = ''''\<rparr>],
             [Inr \<lparr>reasoning = ''Get to know her.'', tags = [''Bond'']\<rparr>],
             [Inr day_reply])"
      and a = "\<lparr>summary = ''We are on step 1.'', future_step = ''step1'', contact = ''''\<rparr>"
      and st = "([Inr \<lparr>summary = ''Never asked.'', future_step = ''step1'', contact = ''''\<rparr>],
                 [Inr \<lparr>reasoning = ''Get to know her.'', tags = [''Bond'']\<rparr>], [Inr day_reply])"
      and c = "\<lparr>reasoning = ''Get to know her.'', tags = [''Bond'']\<rparr>"
      and st' = "([Inr \<lparr>summary = ''Never asked.'', future_step = ''step1'', contact = ''''\<rparr>],
                  [], [Inr day_reply])"
      and out = day_reply_json
      and msgs = "JArr [JStr ''Hey, how was your day?'']"
      and w_out = "\<lparr>store = [],
          model_state =
            ([Inr \<lparr>summary = ''Never asked.'', future_step = ''step1'', contact = ''''\<rparr>],
             [], []),
          trace = [EvGetRecord ''Jane, 25'',
                   EvInvoke analyzer_chain [(''summary'', ''''), (''messages'', ''hi'')],
                   EvPrintAnalyzer
                     \<lparr>summary = ''We are on step 1.'', future_step = ''step1'', contact = ''''\<rparr>,
                   EvInvoke (commander_chain ''step1'')
                     [(''summary'', ''We are on step 1.''), (''messages'', ''hi'')],
                   EvQueryRule ''Bond'',
                   EvInvoke writer_chain
                     [(''rules'', ''Ask about her day.''), (''messages'', ''hi''),
                      (''language'', ''English''), (''city'', ''Warsaw'')],
                   EvPrintOutput (Some ''Writer'') day_reply_json]\<rparr>"]
    summary_refresh_gating[where env = "scripted_env None None"
      and n = "''Jane, 25''" and m = "''hi''"
      and w = "fresh_world
            ([Inr \<lparr>summary = ''We are on step 1.'', future_step = ''step1'', contact = ''''\<rparr>,
              Inr \<lparr>summary = ''We are on step 1. Fun stories (1/1).'', future_step = ''step1'',
                   contact = ''''\<rparr>],
             [Inr \<lparr>reasoning = ''Tell a story.'', tags = [''Storytelling'']\<rparr>],
             [Inr day_reply])"
      and a = "\<lparr>summary = ''We are on step 1.'', future_step = ''step1'', contact = ''''\<rparr>"
      and st = "([Inr \<lparr>summary = ''We are on step 1. Fun stories (1/1).'', future_step = ''step1'',
                   contact = ''''\<rparr>],
                 [Inr \<lparr>reasoning = ''Tell a story.'', tags = [''Storytelling'']\<rparr>], [Inr day_reply])"
      and c = "\<lparr>reasoning = ''Tell a story.'', tags = [''Storytelling'']\<rparr>"
      and st' = "([Inr \<lparr>summary = ''We are on step 1. Fun stories (1/1).'', future_step = ''step1'',
                   contact = ''''\<rparr>], [], [Inr day_reply])"
      and out = day_reply_json
      and msgs = "JArr [JStr ''Hey, how was your day?'']"
      and w_out = "\<lparr>store = [],
          model_state =
            ([Inr \<lparr>summary = ''We are on step 1. Fun stories (1/1).'', future_step = ''step1'',
                   contact = ''''\<rparr>], [], []),
          trace = [EvGetRecord ''Jane, 25'',
                   EvInvoke analyzer_chain [(''summary'', ''''), (''messages'', ''hi'')],
                   EvPrintAnalyzer
                     \<lparr>summary = ''We are on step 1.'', future_step = ''step1'', contact = ''''\<rparr>,
                   EvInvoke (commander_chain ''step1'')
                     [(''summary'', ''We are on step 1.''), (''messages'', ''hi'')],
                   EvQueryRule ''Storytelling'',
                   EvInvoke writer_chain
                     [(''rules'', ''Rule: Storytelling''), (''messages'', ''hi''),
                      (''language'', ''English''), (''city'', ''Warsaw'')],
                   EvPrintOutput (Some ''Writer'') day_reply_json]\<rparr>"
      and a' = "\<lparr>summary = ''We are on step 1. Fun stories (1/1).'', future_step = ''step1'',
                   contact = ''''\<rparr>"
      and st'' = "([], [], [])"]
  by (simp add: scripted_env_def fresh_world_def invoke_chain_unroll invoke_chain_body_def
        call_str_def emit_def writer_args_def day_reply_json_def Let_def
        analyzer_chain_def writer_chain_def commander_chain_def)

text \<open>
  C1. The claim: whenever the Analyzer returns a non-empty \<^verbatim>\<open>contact\<close>, the cycle invokes
  neither Commander nor Writer, writes no summary, marks the contact suspended and returns
  no message. With \<^verbatim>\<open>PUSHBULLET_API_KEY\<close> unset the name \<^verbatim>\<open>pushbullet\<close> is unbound, so the cycle
  below fires the webhook and then leaves line 124 by \<^verbatim>\<open>NameError\<close>: neither Commander nor Writer
  is invoked, but \<^verbatim>\<open>upsert_record\<close> is never reached and the store is unchanged.
\<close>

theorem contact_exit_without_push_key:
  "respond_to_girl (scripted_env (Some ''https://hook.example/date'') None) ''Jane, 25''
     ''call me: 123456789''
     (fresh_world
        ([Inr \<lparr>summary = ''We are on step 2.'', future_step = ''step2'',
               contact = ''Phone 123456789''\<rparr>], [], []))
   = (Inl (NameError ''pushbullet''),
      \<lparr>store = [], model_state = ([], [], []),
       trace = [EvGetRecord ''Jane, 25'',
                EvInvoke analyzer_chain
                  [(''summary'', ''''), (''messages'', ''call me: 123456789'')],
                EvPrintAnalyzer
                  \<lparr>summary = ''We are on step 2.'', future_step = ''step2'',
                   contact = ''Phone 123456789''\<rparr>,
                EvWebhook ''https://hook.example/date''
                  [(''name_age'', ''Jane, 25''), (''contact'', ''Phone 123456789'')]]\<rparr>)"
  by (simp add: model_defs)

text \<open>
  C2, as stated, fails: a first Analyzer call that raises ends the cycle with that exception
  after one attempt and no sleep, although the next call would have succeeded; the same
  holds for the Commander call.
\<close>

theorem analyzer_failure_not_retried:
  "respond_to_girl (scripted_env None None) ''Jane, 25'' ''hi''
     (fresh_world
        ([Inl (ChainError ''timeout''),
          Inr \<lparr>summary = ''We are on step 1.'', future_step = ''step1'', contact = ''''\<rparr>],
         [Inr \<lparr>reasoning = ''Get to know her.'', tags = [''Bond'']\<rparr>],
         [Inr day_reply]))
   = (Inl (ChainError ''timeout''),
      \<lparr>store = [],
       model_state =
         ([Inr \<lparr>summary = ''We are on step 1.'', future_step = ''step1'', contact = ''''\<rparr>],
          [Inr \<lparr>reasoning = ''Get to know her.'', tags = [''Bond'']\<rparr>],
          [Inr day_reply]),
       trace = [EvGetRecord ''Jane, 25'',
                EvInvoke analyzer_chain [(''summary'', ''''), (''messages'', ''hi'')]]\<rparr>)
   \<and> respond_to_girl (scripted_env None None) ''Jane, 25'' ''hi''
     (fresh_world
        ([Inr \<lparr>summary = ''We are on step 1.'', future_step = ''step1'', contact = ''''\<rparr>],
         [Inl (ChainError ''rate limit''),
          Inr \<lparr>reasoning = ''Get to know her.'', tags = [''Bond'']\<rparr>],
         [Inr day_reply]))
   = (Inl (ChainError ''rate limit''),
      \<lparr>store = [],
       model_state =
         ([], [Inr \<lparr>reasoning = ''Get to know her.'', tags = [''Bond'']\<rparr>], [Inr day_reply]),
       trace = [EvGetRecord ''Jane, 25'',
                EvInvoke analyzer_chain [(''summary'', ''''), (''messages'', ''hi'')],
                EvPrintAnalyzer
                  \<lparr>summary = ''We are on step 1.'', future_step = ''step1'', contact = ''''\<rparr>,
                EvInvoke (commander_chain ''step1'')
                  [(''summary'', ''We are on step 1.''), (''messages'', ''hi'')]]\<rparr>)"
  by (simp add: model_defs)

text \<open>
  C2, amended. An exception of the first Analyzer call, of the Commander call or of the
  second Analyzer call leaves \<^verbatim>\<open>respond_to_girl\<close> at once, after that single attempt. Only the
  Writer call goes through \<^verbatim>\<open>invoke_chain\<close>: in every cycle the Writer is attempted at most three
  times, the sleeps of the cycle are exactly the sleeps of 90 between Writer attempts, the
  Analyzer is invoked at most twice and the Commander at most once.
\<close>

theorem only_writer_runs_under_retry:
  "(invoke_analyzer env [(''summary'', get_record env n (store w)), (''messages'', m)]
      (model_state w) = (Inl e, st)
    \<longrightarrow> respond_to_girl env n m w =
          (Inl e, w\<lparr>model_state := st,
                    trace := trace w @
                      [EvGetRecord n,
                       EvInvoke analyzer_chain
                         [(''summary'', get_record env n (store w)), (''messages'', m)]]\<rparr>))
   \<and> (invoke_analyzer env [(''summary'', get_record env n (store w)), (''messages'', m)]
         (model_state w) = (Inr a, st)
       \<and> contact a = []
       \<and> invoke_commander env (commander_chain (future_step a))
            [(''summary'', summary a), (''messages'', m)] st = (Inl e, st')
    \<longrightarrow> respond_to_girl env n m w =
          (Inl e, w\<lparr>model_state := st',
                    trace := trace w @
                      [EvGetRecord n,
                       EvInvoke analyzer_chain
                         [(''summary'', get_record env n (store w)), (''messages'', m)],
                       EvPrintAnalyzer a,
                       EvInvoke (commander_chain (future_step a))
                         [(''summary'', summary a), (''messages'', m)]]\<rparr>))
   \<and> (invoke_analyzer env [(''summary'', get_record env n (store w)), (''messages'', m)]
         (model_state w) = (Inr a, st)
       \<and> contact a = []
       \<and> invoke_commander env (commander_chain (future_step a))
            [(''summary'', summary a), (''messages'', m)] st = (Inr c, st')
    \<longrightarrow> respond_to_girl env n m w =
          after_writer env n a (tags c)
            (invoke_chain env writer_chain
               (writer_args env (map (query_rule env) (tags c)) m) (Some ''Writer'')
               (w\<lparr>model_state := st',
                  trace := trace w @
                    [EvGetRecord n,
                     EvInvoke analyzer_chain
                       [(''summary'', get_record env n (store w)), (''messages'', m)],
                     EvPrintAnalyzer a,
                     EvInvoke (commander_chain (future_step a))
                       [(''summary'', summary a), (''messages'', m)]]
                    @ map EvQueryRule (tags c)\<rparr>)))
   \<and> ((''Attractive guy image'' \<in> set tgs \<or> ''Storytelling'' \<in> set tgs)
       \<and> getitem out ''message'' = Inr msgs
       \<and> invoke_analyzer env
            [(''summary'', summary a), (''messages'', ''Conversator: '' @ py_str env msgs)]
            (model_state w_out) = (Inl e, st'')
    \<longrightarrow> after_writer env n a tgs (Inr out, w_out) =
          (Inl e, w_out\<lparr>model_state := st'',
                        trace := trace w_out @
                          [EvInvoke analyzer_chain
                             [(''summary'', summary a),
                              (''messages'', ''Conversator: '' @ py_str env msgs)]]\<rparr>))
   \<and> (let evs = new_events w (snd (respond_to_girl env n m w));
           k = length (calls_to Writer evs)
       in k \<le> 3 \<and> sleeps evs = replicate (k - 1) 90
          \<and> length (calls_to Analyzer evs) \<le> 2 \<and> length (calls_to Commander evs) \<le> 1)"
proof (intro conjI impI)
  assume "invoke_analyzer env [(''summary'', get_record env n (store w)), (''messages'', m)]
      (model_state w) = (Inl e, st)"
  then show "respond_to_girl env n m w =
          (Inl e, w\<lparr>model_state := st,
                    trace := trace w @
                      [EvGetRecord n,
                       EvInvoke analyzer_chain
                         [(''summary'', get_record env n (store w)), (''messages'', m)]]\<rparr>)"
    by (rule respond_analyzer_failed)
next
  assume "invoke_analyzer env [(''summary'', get_record env n (store w)), (''messages'', m)]
         (model_state w) = (Inr a, st)
       \<and> contact a = []
       \<and> invoke_commander env (commander_chain (future_step a))
            [(''summary'', summary a), (''messages'', m)] st = (Inl e, st')"
  then show "respond_to_girl env n m w =
          (Inl e, w\<lparr>model_state := st',
                    trace := trace w @
                      [EvGetRecord n,
                       EvInvoke analyzer_chain
                         [(''summary'', get_record env n (store w)), (''messages'', m)],
                       EvPrintAnalyzer a,
                       EvInvoke (commander_chain (future_step a))
                         [(''summary'', summary a), (''messages'', m)]]\<rparr>)"
    by (intro respond_commander_failed) auto
next
  assume "invoke_analyzer env [(''summary'', get_record env n (store w)), (''messages'', m)]
         (model_state w) = (Inr a, st)
       \<and> contact a = []
       \<and> invoke_commander env (commander_chain (future_step a))
            [(''summary'', summary a), (''messages'', m)] st = (Inr c, st')"
  then show "respond_to_girl env n m w =
          after_writer env n a (tags c)
            (invoke_chain env writer_chain
               (writer_args env (map (query_rule env) (tags c)) m) (Some ''Writer'')
               (w\<lparr>model_state := st',
                  trace := trace w @
                    [EvGetRecord n,
                     EvInvoke analyzer_chain
                       [(''summary'', get_record env n (store w)), (''messages'', m)],
                     EvPrintAnalyzer a,
                     EvInvoke (commander_chain (future_step a))
                       [(''summary'', summary a), (''messages'', m)]]
                    @ map EvQueryRule (tags c)\<rparr>))"
    by (intro respond_reply) auto
next
  assume "(''Attractive guy image'' \<in> set tgs \<or> ''Storytelling'' \<in> set tgs)
       \<and> getitem out ''message'' = Inr msgs
       \<and> invoke_analyzer env
            [(''summary'', summary a), (''messages'', ''Conversator: '' @ py_str env msgs)]
            (model_state w_out) = (Inl e, st'')"
  then show "after_writer env n a tgs (Inr out, w_out) =
          (Inl e, w_out\<lparr>model_state := st'',
                        trace := trace w_out @
                          [EvInvoke analyzer_chain
                             [(''summary'', summary a),
                              (''messages'', ''Conversator: '' @ py_str env msgs)]]\<rparr>)"
    by (auto simp: after_writer_def refresh_summary_def call_analyzer_def emit_def)
next
  obtain res w' where run: "respond_to_girl env n m w = (res, w')"
    by (cases "respond_to_girl env n m w") blast
  obtain ra sa where an: "invoke_analyzer env
                  [(''summary'', get_record env n (store w)), (''messages'', m)]
                  (model_state w) = (ra, sa)"
    by (cases "invoke_analyzer env
                  [(''summary'', get_record env n (store w)), (''messages'', m)]
                  (model_state w)") blast
  have "length (calls_to Writer (new_events w w')) \<le> 3
      \<and> sleeps (new_events w w') = replicate (length (calls_to Writer (new_events w w')) - 1) 90
      \<and> length (calls_to Analyzer (new_events w w')) \<le> 2
      \<and> length (calls_to Commander (new_events w w')) \<le> 1"
  proof (cases ra)
    case (Inl x)
    then show ?thesis
      using respond_analyzer_failed[OF an[unfolded Inl]] run by (auto simp: analyzer_chain_def)
  next
    case (Inr b)
    note an' = an[unfolded Inr]
    show ?thesis
    proof (cases "contact b = []")
      case False
      from respond_contact[OF an' False] run
      have ce: "contact_exit env n (contact b)
       (w\<lparr>model_state := sa,
          trace := trace w @
            [EvGetRecord n,
             EvInvoke analyzer_chain
               [(''summary'', get_record env n (store w)), (''messages'', m)],
             EvPrintAnalyzer b]\<rparr>) = (res, w')" by simp
      from contact_exit_frame[OF ce, of Writer] contact_exit_frame[OF ce, of Analyzer]
        contact_exit_frame[OF ce, of Commander]
      show ?thesis by (auto simp: analyzer_chain_def)
    next
      case True
      obtain rc sc where co: "invoke_commander env (commander_chain (future_step b))
           [(''summary'', summary b), (''messages'', m)] sa = (rc, sc)"
        by (cases "invoke_commander env (commander_chain (future_step b))
           [(''summary'', summary b), (''messages'', m)] sa") blast
      have cm: "chain_model (commander_chain (future_step b)) = Commander"
        by (simp add: commander_chain_def)
      show ?thesis
      proof (cases rc)
        case (Inl x)
        then show ?thesis
          using respond_commander_failed[OF an' True] co run cm
          by (auto simp: analyzer_chain_def)
      next
        case c: (Inr d)
        from respond_reply_frame[OF an' True co[unfolded c] run] obtain rs evs where
          rs: "1 \<le> length rs" "length rs \<le> 3"
          and tr: "trace w' = trace w @
               [EvGetRecord n,
                EvInvoke analyzer_chain
                  [(''summary'', get_record env n (store w)), (''messages'', m)],
                EvPrintAnalyzer b,
                EvInvoke (commander_chain (future_step b))
                  [(''summary'', summary b), (''messages'', m)]]
               @ map EvQueryRule (tags d)
               @ run_events writer_chain (writer_args env (map (query_rule env) (tags d)) m)
                   (Some ''Writer'') 90 rs
               @ evs"
          and ev: "calls_to Commander evs = []" "calls_to Writer evs = []"
            "length (calls_to Analyzer evs) \<le> 1" "sleeps evs = []"
          by blast
        show ?thesis
          using rs ev cm by (simp add: tr analyzer_chain_def writer_chain_def)
      qed
    qed
  qed
  then show "let evs = new_events w (snd (respond_to_girl env n m w));
           k = length (calls_to Writer evs)
       in k \<le> 3 \<and> sleeps evs = replicate (k - 1) 90
          \<and> length (calls_to Analyzer evs) \<le> 2 \<and> length (calls_to Commander evs) \<le> 1"
    using run by (simp add: Let_def)
qed

theorem only_writer_runs_under_retry_witness:
  "fst (respond_to_girl (scripted_env None None) ''Jane, 25'' ''hi''
     (fresh_world
        ([Inl (ChainError ''timeout''),
          Inr \<lparr>summary = ''We are on step 1.'', future_step = ''step1'', contact = ''''\<rparr>],
         [Inr \<lparr>reasoning = ''Get to know her.'', tags = [''Bond'']\<rparr>],
         [Inr day_reply])))
     = Inl (ChainError ''timeout'')
   \<and> fst (respond_to_girl (scripted_env None None) ''Jane, 25'' ''hi''
     (fresh_world
        ([Inr \<lparr>summary = ''We are on step 1.'', future_step = ''step1'', contact = ''''\<rparr>],
         [Inl (ChainError ''rate limit''),
          Inr \<lparr>reasoning = ''Get to know her.'', tags = [''Bond'']\<rparr>],
         [Inr day_reply])))
     = Inl (ChainError ''rate limit'')
   \<and> fst (respond_to_girl (scripted_env None None) ''Jane, 25'' ''hi''
     (fresh_world
        ([Inr \<lparr>summary = ''We are on step 1.'', future_step = ''step1'', contact = ''''\<rparr>,
          Inl (ChainError ''overloaded'')],
         [Inr \<lparr>reasoning = ''Tell a story.'', tags = [''Storytelling'']\<rparr>],
         [Inl (ChainError ''timeout''), Inr day_reply])))
     = Inl (ChainError ''overloaded'')"
  using only_writer_runs_under_retry[where env = "scripted_env None None"
      and n = "''Jane, 25''" and m = "''hi''"
      and w = "fresh_world
        ([Inl (ChainError ''timeout''),
          Inr \<lparr>summary = ''We are on step 1.'', future_step = ''step1'', contact = ''''\<rparr>],
         [Inr \<lparr>reasoning = ''Get to know her.'', tags = [''Bond'']\<rparr>],
         [Inr day_reply])"
      and e = "ChainError ''timeout''"
      and st = "([Inr \<lparr>summary = ''We are on step 1.'', future_step = ''step1'', contact = ''''\<rparr>],
         [Inr \<lparr>reasoning = ''Get to know her.'', tags = [''Bond'']\<rparr>],
         [Inr day_reply])"]
    only_writer_runs_under_retry[where env = "scripted_env None None"
      and n = "''Jane, 25''" and m = "''hi''"
      and w = "fresh_world
        ([Inr \<lparr>summary = ''We are on step 1.'', future_step = ''step1'', contact = ''''\<rparr>],
         [Inl (ChainError ''rate limit''),
          Inr \<lparr>reasoning = ''Get to know her.'', tags = [''Bond'']\<rparr>],
         [Inr day_reply])"
      and a = "\<lparr>summary = ''We are on step 1.'', future_step = ''step1'', contact = ''''\<rparr>"
      and st = "([], [Inl (ChainError ''rate limit''),
          Inr \<lparr>reasoning = ''Get to know her.'', tags = [''Bond'']\<rparr>], [Inr day_reply])"
      and e = "ChainError ''rate limit''"
      and st' = "([], [Inr \<lparr>reasoning = ''Get to know her.'', tags = [''Bond'']\<rparr>],
                  [Inr day_reply])"]
    only_writer_runs_under_retry[where env = "scripted_env None None"
      and n = "''Jane, 25''" and m = "''hi''"
      and w = "fresh_world
        ([Inr \<lparr>summary = ''We are on step 1.'', future_step = ''step1'', contact = ''''\<rparr>,
          Inl (ChainError ''overloaded'')],
         [Inr \<lparr>reasoning = ''Tell a story.'', tags = [''Storytelling'']\<rparr>],
         [Inl (ChainError ''timeout''), Inr day_reply])"
      and a = "\<lparr>summary = ''We are on step 1.'', future_step = ''step1'', contact = ''''\<rparr>"
      and st = "([Inl (ChainError ''overloaded'')],
         [Inr \<lparr>reasoning = ''Tell a story.'', tags = [''Storytelling'']\<rparr>],
         [Inl (ChainError ''timeout''), Inr day_reply])"
      and c = "\<lparr>reasoning = ''Tell a story.'', tags = [''Storytelling'']\<rparr>"
      and st' = "([Inl (ChainError ''overloaded'')], [],
         [Inl (ChainError ''timeout''), Inr day_reply])"
      and tgs = "[''Storytelling'']"
      and out = day_reply_json
      and msgs = "JArr [JStr ''Hey, how was your day?'']"
      and e = "ChainError ''overloaded''"
      and st'' = "([], [], [])"
      and w_out = "\<lparr>store = [],
          model_state = ([Inl (ChainError ''overloaded'')], [], []),
          trace = [EvGetRecord ''Jane, 25'',
                   EvInvoke analyzer_chain [(''summary'', ''''), (''messages'', ''hi'')],
                   EvPrintAnalyzer
                     \<lparr>summary = ''We are on step 1.'', future_step = ''step1'', contact = ''''\<rparr>,
                   EvInvoke (commander_chain ''step1'')
                     [(''summary'', ''We are on step 1.''), (''messages'', ''hi'')],
                   EvQueryRule ''Storytelling'',
                   EvInvoke writer_chain
                     [(''rules'', ''Rule: Storytelling''), (''messages'', ''hi''),
                      (''language'', ''English''), (''city'', ''Warsaw'')],
                   EvPrintError (ChainError ''timeout''),
                   EvSleep 90,
                   EvInvoke writer_chain
                     [(''rules'', ''Rule: Storytelling''), (''messages'', ''hi''),
                      (''language'', ''English''), (''city'', ''Warsaw'')],
                   EvPrintOutput (Some ''Writer'') day_reply_json]\<rparr>"]
  by (simp add: scripted_env_def fresh_world_def invoke_chain_unroll invoke_chain_body_def
        call_str_def emit_def writer_args_def day_reply_json_def)

text \<open>
  C3. The claim: on the contact-exit path the push note is sent only when a push key is
  configured, and without the key the path still completes. Without the key no push note is
  sent, but the cycle ends in \<^verbatim>\<open>NameError\<close> at line 124 and the contact is not marked; with a
  key the same cycle sends the note, writes the not-to-rise flag and returns \<^verbatim>\<open>None\<close>.
\<close>

theorem push_credential_absent_raises:
  "respond_to_girl (scripted_env None None) ''Jane, 25'' ''insta: jane_doe''
     (fresh_world
        ([Inr \<lparr>summary = ''We are on step 2.'', future_step = ''step2'',
               contact = ''Instagram jane_doe''\<rparr>], [], []))
   = (Inl (NameError ''pushbullet''),
      \<lparr>store = [], model_state = ([], [], []),
       trace = [EvGetRecord ''Jane, 25'',
                EvInvoke analyzer_chain
                  [(''summary'', ''''), (''messages'', ''insta: jane_doe'')],
                EvPrintAnalyzer
                  \<lparr>summary = ''We are on step 2.'', future_step = ''step2'',
                   contact = ''Instagram jane_doe''\<rparr>]\<rparr>)
   \<and> respond_to_girl (scripted_env None (Some ''o.abc'')) ''Jane, 25'' ''insta: jane_doe''
     (fresh_world
        ([Inr \<lparr>summary = ''We are on step 2.'', future_step = ''step2'',
               contact = ''Instagram jane_doe''\<rparr>], [], []))
   = (Inr None,
      \<lparr>store = [(''Jane, 25'', None, True)], model_state = ([], [], []),
       trace = [EvGetRecord ''Jane, 25'',
                EvInvoke analyzer_chain
                  [(''summary'', ''''), (''messages'', ''insta: jane_doe'')],
                EvPrintAnalyzer
                  \<lparr>summary = ''We are on step 2.'', future_step = ''step2'',
                   contact = ''Instagram jane_doe''\<rparr>,
                EvPushNote ''I planned date with Jane, 25'' ''Instagram jane_doe'',
                EvUpsert ''Jane, 25'' None True]\<rparr>)"
  by (simp add: model_defs)

end
